theory Spec2Isabelle
  imports Main
begin

section \<open>The type model of \<open>internal/generator/type.go\<close>\<close>

text \<open>
  The kind tags are the string constants of the source. \<open>Kind\<close> is a plain string
  field of the struct, so a value can carry a tag that is none of the nine.
\<close>

definition TypeKindSelector :: string where "TypeKindSelector = ''selector''"
definition TypeKindStar :: string where "TypeKindStar = ''star''"
definition TypeKindIdent :: string where "TypeKindIdent = ''ident''"
definition TypeKindEllipsis :: string where "TypeKindEllipsis = ''ellipsis''"
definition TypeKindArray :: string where "TypeKindArray = ''array''"
definition TypeKindFunc :: string where "TypeKindFunc = ''func''"
definition TypeKindMap :: string where "TypeKindMap = ''map''"
definition TypeKindInterface :: string where "TypeKindInterface = ''interface''"
definition TypeKindChan :: string where "TypeKindChan = ''chan''"

lemmas TypeKind_defs =
  TypeKindSelector_def TypeKindStar_def TypeKindIdent_def TypeKindEllipsis_def
  TypeKindArray_def TypeKindFunc_def TypeKindMap_def TypeKindInterface_def
  TypeKindChan_def

definition recognizedKinds :: "string list" where
  "recognizedKinds =
     [TypeKindSelector, TypeKindStar, TypeKindIdent, TypeKindEllipsis, TypeKindArray,
      TypeKindFunc, TypeKindMap, TypeKindInterface, TypeKindChan]"

text \<open>
  \<open>ast.ChanDir\<close> of the Go library is an integer: \<open>SEND = 1\<close>, \<open>RECV = 2\<close>, and a
  bidirectional channel carries \<open>SEND | RECV = 3\<close>.
\<close>

type_synonym ChanDir = int

definition SEND :: ChanDir where "SEND = 1"
definition RECV :: ChanDir where "RECV = 2"
definition BOTH :: ChanDir where "BOTH = 3"

text \<open>
  The struct \<open>Type\<close>, field by field in the order of the source:
  \<open>Child, Package, Name, Kind, Results, Params, mapKeyType, mapValType, chanDir\<close>.
  A \<open>*Type\<close> field is a \<open>Type option\<close>, \<open>None\<close> being the nil pointer.
\<close>

text \<open>
  Modelled from the spec: the struct \<open>Param\<close> is declared outside \<open>type.go\<close>, in a
  file that is not available. The spec describes it as a name (possibly empty) plus one
  owned, required \<open>Type\<close>.
\<close>

datatype Type =
  Type (Child: "Type option") (Package: string) (Name: string) (Kind: string)
       (Results: "Param list") (Params: "Param list")
       (mapKeyType: "Type option") (mapValType: "Type option") (chanDir: ChanDir)
and Param =
  Param (ParamName: string) (ParamType: Type)

text \<open>What can stop a call: an explicit \<open>panic(msg)\<close>, or a nil pointer dereference.\<close>

datatype fault = Panic string | NilDereference

subsection \<open>Rendering: \<open>(*Type).String\<close>\<close>

text \<open>\<open>strings.Join\<close> of the Go library.\<close>

fun Join :: "string list \<Rightarrow> string \<Rightarrow> string" where
  "Join [] sep = []"
| "Join [x] sep = x"
| "Join (x # y # ys) sep = x @ sep @ Join (y # ys) sep"

text \<open>A loop that fills a slice from calls that may panic: the first panic wins.\<close>

fun collect :: "(fault + 'a) list \<Rightarrow> fault + 'a list" where
  "collect [] = Inr []"
| "collect (Inl e # rs) = Inl e"
| "collect (Inr v # rs) = (case collect rs of Inl e \<Rightarrow> Inl e | Inr vs \<Rightarrow> Inr (v # vs))"

text \<open>
  \<open>String\<close> follows the \<open>switch t.Kind\<close> of the source case by case, in its order.
  \<open>String_ptr\<close> is the method call through a \<open>*Type\<close> field: on nil, reading
  \<open>t.Kind\<close> panics. \<open>fmt.Sprintf\<close> with \<open>%s\<close> verbs is concatenation.
\<close>

text \<open>
  Modelled from the spec: \<open>(*Param).String\<close>, here \<open>Param_String\<close>, is defined outside
  \<open>type.go\<close>, in a file that is not available. The spec says a parameter renders as
  its type alone, the name being dropped.
\<close>

fun String :: "Type \<Rightarrow> fault + string"
  and String_ptr :: "Type option \<Rightarrow> fault + string"
  and Param_String :: "Param \<Rightarrow> fault + string" where
  "String (Type child pkg name kind results params mk mv dir) =
     (if kind = TypeKindStar then
        (case String_ptr child of Inl e \<Rightarrow> Inl e | Inr s \<Rightarrow> Inr (''*'' @ s))
      else if kind = TypeKindIdent then
        (if pkg = '''' then Inr name else Inr (pkg @ ''.'' @ name))
      else if kind = TypeKindEllipsis then
        (case String_ptr child of Inl e \<Rightarrow> Inl e | Inr s \<Rightarrow> Inr (''...'' @ s))
      else if kind = TypeKindArray then
        (case String_ptr child of Inl e \<Rightarrow> Inl e | Inr s \<Rightarrow> Inr (''[]'' @ s))
      else if kind = TypeKindMap then
        (case String_ptr mk of Inl e \<Rightarrow> Inl e | Inr k \<Rightarrow>
         (case String_ptr mv of Inl e \<Rightarrow> Inl e | Inr v \<Rightarrow>
            Inr (''map['' @ k @ '']'' @ v)))
      else if kind = TypeKindSelector then
        Inr (pkg @ ''.'' @ name)
      else if kind = TypeKindInterface then
        Inr ''interface{}''
      else if kind = TypeKindFunc then
        (case collect (map Param_String params) of Inl e \<Rightarrow> Inl e | Inr ps \<Rightarrow>
         (case collect (map Param_String results) of Inl e \<Rightarrow> Inl e | Inr rs \<Rightarrow>
            Inr (''func('' @ Join ps '', '' @ '') '' @
                 (if 1 < length rs then ''('' @ Join rs '', '' @ '')''
                  else Join rs '', ''))))
      else if kind = TypeKindChan then
        (case String_ptr child of Inl e \<Rightarrow> Inl e | Inr s \<Rightarrow>
           Inr ((if dir = RECV then ''<-chan ''
                 else if dir = SEND then ''chan<- ''
                 else ''chan '') @ s))
      else Inr '''')"
| "String_ptr None = Inl NilDereference"
| "String_ptr (Some t) = String t"
| "Param_String (Param n t) = String t"

section \<open>The syntax tree handed to the parser\<close>

text \<open>
  The node shapes of Go's \<open>go/ast\<close> that \<open>ParseType\<close> tells apart, with the fields it
  reads, plus \<open>NilNode\<close> (the nil interface value, which an optional field such as
  \<open>Ellipsis.Elt\<close> may hold) and \<open>OtherNode\<close> for every other node type, tagged with
  what \<open>%T\<close> prints for it. A field list is a list of fields, each a list of names
  and a type; a nil \<open>*ast.FieldList\<close> is the empty list.
\<close>

datatype node =
    NilNode
  | Ident string
  | SelectorExpr node string
  | Ellipsis node
  | StarExpr node
  | FuncType "(string list \<times> node) list" "(string list \<times> node) list"
  | ArrayType node node
  | MapType node node
  | InterfaceType "(string list \<times> node) list"
  | ChanType ChanDir node
  | OtherNode string

type_synonym Field = "string list \<times> node"

text \<open>What \<open>fmt.Sprintf("%T", node)\<close> prints for the nodes that reach the default case.\<close>

fun typeName :: "node \<Rightarrow> string" where
  "typeName NilNode = ''<nil>''"
| "typeName (OtherNode tn) = tn"
| "typeName (Ident _) = ''*ast.Ident''"
| "typeName (SelectorExpr _ _) = ''*ast.SelectorExpr''"
| "typeName (Ellipsis _) = ''*ast.Ellipsis''"
| "typeName (StarExpr _) = ''*ast.StarExpr''"
| "typeName (FuncType _ _) = ''*ast.FuncType''"
| "typeName (ArrayType _ _) = ''*ast.ArrayType''"
| "typeName (MapType _ _) = ''*ast.MapType''"
| "typeName (InterfaceType _) = ''*ast.InterfaceType''"
| "typeName (ChanType _ _) = ''*ast.ChanType''"

text \<open>
  Modelled from the spec: \<open>identName\<close> is defined outside \<open>type.go\<close>, in a file that
  is not available. The spec calls its result "the name of X"; for an identifier that
  is the identifier's name. For a node that is no identifier the spec names nothing,
  and the model returns the empty string, the zero value; no theorem below is about
  that case.
\<close>

fun identName :: "node \<Rightarrow> string" where
  "identName (Ident n) = n"
| "identName _ = ''''"

text \<open>
  Modelled from the spec: \<open>extractList\<close> is defined outside \<open>type.go\<close>, in a file
  that is not available. The spec says grouped declarations are flattened before the
  types are parsed: one slot per declared name, in order, and one unnamed slot for a
  field without names.
\<close>

fun expandField :: "Field \<Rightarrow> (string \<times> node) list" where
  "expandField ([], ty) = [('''', ty)]"
| "expandField (names, ty) = map (\<lambda>n. (n, ty)) names"

definition extractList :: "Field list \<Rightarrow> (string \<times> node) list" where
  "extractList fl = concat (map expandField fl)"

subsection \<open>\<open>ParseType\<close>\<close>

text \<open>The closure \<open>formatPackage\<close>; \<open>typesMap\<close> is a \<open>map[string]struct{}\<close>.\<close>

definition formatPackage :: "(string \<rightharpoonup> unit) \<Rightarrow> string \<Rightarrow> string \<Rightarrow> string \<Rightarrow> string" where
  "formatPackage typesMap sourcePackageName pkg typeName' =
     (if pkg \<noteq> '''' then ''''
      else (case typesMap typeName' of
              Some _ \<Rightarrow> sourcePackageName
            | None \<Rightarrow> pkg))"

text \<open>A bound for the termination proof: the largest type node of a list of slots.\<close>

fun maxNode :: "(string \<times> node) list \<Rightarrow> nat" where
  "maxNode [] = 0"
| "maxNode (f # fs) = max (size (snd f)) (maxNode fs)"

text \<open>
  \<open>ParseType\<close> dispatches on the node's shape in the order of the source's type
  switch; the default case panics. A panic in a recursive call leaves through every
  caller, and the fields of a composite literal are evaluated in the order written.
\<close>

text \<open>
  Modelled from the spec: \<open>ParseMany\<close> is defined outside \<open>type.go\<close>, in a file that
  is not available. The spec says each slot becomes one \<open>Param\<close>, in order, whose
  type is the parsed type of the slot.
\<close>

function ParseType :: "node \<Rightarrow> (string \<rightharpoonup> unit) \<Rightarrow> string \<Rightarrow> fault + Type"
  and ParseMany :: "(string \<times> node) list \<Rightarrow> (string \<rightharpoonup> unit) \<Rightarrow> string \<Rightarrow> fault + Param list" where
  "ParseType (SelectorExpr x sel) typesMap sourcePackageName =
     Inr (Type None (identName x) sel TypeKindSelector [] [] None None 0)"
| "ParseType (Ident n) typesMap sourcePackageName =
     Inr (Type None (formatPackage typesMap sourcePackageName '''' (identName (Ident n)))
            (identName (Ident n)) TypeKindIdent [] [] None None 0)"
| "ParseType (Ellipsis elt) typesMap sourcePackageName =
     (case ParseType elt typesMap sourcePackageName of Inl e \<Rightarrow> Inl e
      | Inr c \<Rightarrow> Inr (Type (Some c) '''' '''' TypeKindEllipsis [] [] None None 0))"
| "ParseType (StarExpr x) typesMap sourcePackageName =
     (case ParseType x typesMap sourcePackageName of Inl e \<Rightarrow> Inl e
      | Inr c \<Rightarrow> Inr (Type (Some c) '''' '''' TypeKindStar [] [] None None 0))"
| "ParseType (FuncType params results) typesMap sourcePackageName =
     (case ParseMany (extractList params) typesMap sourcePackageName of Inl e \<Rightarrow> Inl e
      | Inr ps \<Rightarrow>
        (case ParseMany (extractList results) typesMap sourcePackageName of Inl e \<Rightarrow> Inl e
         | Inr rs \<Rightarrow> Inr (Type None '''' '''' TypeKindFunc rs ps None None 0)))"
| "ParseType (ArrayType len elt) typesMap sourcePackageName =
     (case ParseType elt typesMap sourcePackageName of Inl e \<Rightarrow> Inl e
      | Inr c \<Rightarrow> Inr (Type (Some c) '''' '''' TypeKindArray [] [] None None 0))"
| "ParseType (MapType key val) typesMap sourcePackageName =
     (case ParseType key typesMap sourcePackageName of Inl e \<Rightarrow> Inl e
      | Inr k \<Rightarrow>
        (case ParseType val typesMap sourcePackageName of Inl e \<Rightarrow> Inl e
         | Inr v \<Rightarrow> Inr (Type None '''' '''' TypeKindMap [] [] (Some k) (Some v) 0)))"
| "ParseType (InterfaceType methods) typesMap sourcePackageName =
     Inr (Type None '''' '''' TypeKindInterface [] [] None None 0)"
| "ParseType (ChanType dir val) typesMap sourcePackageName =
     (case ParseType val typesMap sourcePackageName of Inl e \<Rightarrow> Inl e
      | Inr c \<Rightarrow> Inr (Type (Some c) '''' '''' TypeKindChan [] [] None None dir))"
| "ParseType NilNode typesMap sourcePackageName =
     Inl (Panic (''unhandled type '' @ typeName NilNode))"
| "ParseType (OtherNode tn) typesMap sourcePackageName =
     Inl (Panic (''unhandled type '' @ typeName (OtherNode tn)))"
| "ParseMany [] typesMap sourcePackageName = Inr []"
| "ParseMany (f # fs) typesMap sourcePackageName =
     (case ParseType (snd f) typesMap sourcePackageName of Inl e \<Rightarrow> Inl e
      | Inr t \<Rightarrow>
        (case ParseMany fs typesMap sourcePackageName of Inl e \<Rightarrow> Inl e
         | Inr ps \<Rightarrow> Inr (Param (fst f) t # ps)))"
  by pat_completeness auto

lemma maxNode_extractList:
  "maxNode (extractList fl) \<le> size_list (size_prod (\<lambda>_. 0) size) fl"
proof (induction fl)
  case Nil
  show ?case by (simp add: extractList_def)
next
  case (Cons f fl)
  obtain names ty where f: "f = (names, ty)" by (cases f)
  have one: "maxNode (expandField (names, ty) @ rest) \<le> max (size ty) (maxNode rest)" for rest
  proof (cases names)
    case Nil
    then show ?thesis by simp
  next
    case (Cons a as)
    have "maxNode (map (\<lambda>n. (n, ty)) ns @ rest) \<le> max (size ty) (maxNode rest)" for ns
      by (induction ns) auto
    with Cons show ?thesis by simp
  qed
  have "maxNode (extractList (f # fl)) \<le> max (size ty) (maxNode (extractList fl))"
    using one [of "extractList fl"] by (simp add: extractList_def f)
  with Cons.IH show ?case by (simp add: f)
qed

termination ParseType
proof (relation "inv_image (less_than <*lex*> less_than)
    (\<lambda>x. case x of
       Inl (n, _, _) \<Rightarrow> (size n, 0)
     | Inr (fs, _, _) \<Rightarrow> (maxNode fs, Suc (length fs)))")
  show "wf (inv_image (less_than <*lex*> less_than)
    (\<lambda>x. case x of
       Inl (n, _, _) \<Rightarrow> (size n, 0::nat)
     | Inr (fs, _, _) \<Rightarrow> (maxNode fs, Suc (length fs))))"
    by (intro wf_inv_image wf_lex_prod wf_less_than)
next
  fix params results :: "Field list" and typesMap :: "string \<rightharpoonup> unit" and sourcePackageName :: string
  show "(Inr (extractList params, typesMap, sourcePackageName),
         Inl (FuncType params results, typesMap, sourcePackageName))
        \<in> inv_image (less_than <*lex*> less_than)
            (\<lambda>x. case x of
               Inl (n, _, _) \<Rightarrow> (size n, 0)
             | Inr (fs, _, _) \<Rightarrow> (maxNode fs, Suc (length fs)))"
    using maxNode_extractList [of params] by simp
next
  fix params results :: "Field list" and typesMap :: "string \<rightharpoonup> unit" and sourcePackageName :: string
    and x2 :: "Param list"
  show "(Inr (extractList results, typesMap, sourcePackageName),
         Inl (FuncType params results, typesMap, sourcePackageName))
        \<in> inv_image (less_than <*lex*> less_than)
            (\<lambda>x. case x of
               Inl (n, _, _) \<Rightarrow> (size n, 0)
             | Inr (fs, _, _) \<Rightarrow> (maxNode fs, Suc (length fs)))"
    using maxNode_extractList [of results] by simp
qed (auto simp: less_Suc_eq_le)

section \<open>Collecting the declared types of a file\<close>





section \<open>The predicates the claims are stated with\<close>

subsection \<open>The invariants of the model\<close>

text \<open>
  The invariants the spec states for a \<open>Type\<close> value, checked through the whole tree:
  a pointer, variadic, array or channel kind has a non-nil \<open>Child\<close>, a map kind has
  a non-nil key and value type, and every type reached through those fields and
  through the parameters and results of a function kind satisfies them in turn.
\<close>

fun wellFormed :: "Type \<Rightarrow> bool"
  and wellFormed_ptr :: "Type option \<Rightarrow> bool"
  and wellFormed_param :: "Param \<Rightarrow> bool" where
  "wellFormed (Type child pkg name kind results params mk mv dir) =
     ((if kind \<in> {TypeKindStar, TypeKindEllipsis, TypeKindArray, TypeKindChan}
       then wellFormed_ptr child else True) \<and>
      (if kind = TypeKindMap then wellFormed_ptr mk \<and> wellFormed_ptr mv else True) \<and>
      (if kind = TypeKindFunc
       then list_all wellFormed_param params \<and> list_all wellFormed_param results
       else True))"
| "wellFormed_ptr None = False"
| "wellFormed_ptr (Some t) = wellFormed t"
| "wellFormed_param (Param n t) = wellFormed t"

subsection \<open>The supported grammar\<close>

text \<open>The node shapes of the supported grammar: the nine cases of the type switch.\<close>

fun supportedShape :: "node \<Rightarrow> bool" where
  "supportedShape (SelectorExpr _ _) = True"
| "supportedShape (Ident _) = True"
| "supportedShape (Ellipsis _) = True"
| "supportedShape (StarExpr _) = True"
| "supportedShape (FuncType _ _) = True"
| "supportedShape (ArrayType _ _) = True"
| "supportedShape (MapType _ _) = True"
| "supportedShape (InterfaceType _) = True"
| "supportedShape (ChanType _ _) = True"
| "supportedShape NilNode = False"
| "supportedShape (OtherNode _) = False"

subsection \<open>The type declarations of a file\<close>


section \<open>Example values\<close>

text \<open>
  The types \<open>int\<close> and \<open>error\<close>, and the signature
  \<open>func(a, b map[string][]*Foo) (<-chan int, error)\<close> with its model when \<open>Foo\<close> is a
  local type and the destination package is \<open>out\<close>.
\<close>

definition intT :: Type where
  "intT = Type None '''' ''int'' TypeKindIdent [] [] None None 0"

definition errorT :: Type where
  "errorT = Type None '''' ''error'' TypeKindIdent [] [] None None 0"

definition stringT :: Type where
  "stringT = Type None '''' ''string'' TypeKindIdent [] [] None None 0"

definition fooT :: Type where
  "fooT = Type None ''out'' ''Foo'' TypeKindIdent [] [] None None 0"

definition mapT :: Type where
  "mapT = Type None '''' '''' TypeKindMap [] [] (Some stringT)
     (Some (Type (Some (Type (Some fooT) '''' '''' TypeKindStar [] [] None None 0))
        '''' '''' TypeKindArray [] [] None None 0)) 0"

definition exampleNode :: node where
  "exampleNode = FuncType
     [([''a'', ''b''], MapType (Ident ''string'') (ArrayType NilNode (StarExpr (Ident ''Foo''))))]
     [([], ChanType RECV (Ident ''int'')), ([], Ident ''error'')]"

definition exampleType :: Type where
  "exampleType = Type None '''' '''' TypeKindFunc
     [Param '''' (Type (Some intT) '''' '''' TypeKindChan [] [] None None RECV), Param '''' errorT]
     [Param ''a'' mapT, Param ''b'' mapT] None None 0"



section \<open>Facts about rendering\<close>

lemma collect_map_Inr: "collect (map Inr xs) = Inr xs"
  by (induction xs) auto

lemma all_Inr_map:
  "(\<And>x. x \<in> set xs \<Longrightarrow> \<exists>s. f x = Inr s) \<Longrightarrow> \<exists>ss. map f xs = map Inr ss"
proof (induction xs)
  case Nil
  show ?case by simp
next
  case (Cons x xs)
  then obtain s where s: "f x = Inr s" by auto
  from Cons obtain ss where "map f xs = map Inr ss" by auto
  with s have "map f (x # xs) = map Inr (s # ss)" by simp
  then show ?case by blast
qed

lemma String_star: "String (Type child pkg name TypeKindStar results params mk mv dir) =
     (case String_ptr child of Inl e \<Rightarrow> Inl e | Inr s \<Rightarrow> Inr (''*'' @ s))"
  by simp

lemma String_ident: "String (Type child pkg name TypeKindIdent results params mk mv dir) =
     (if pkg = '''' then Inr name else Inr (pkg @ ''.'' @ name))"
  by (simp add: TypeKind_defs)

lemma String_ellipsis: "String (Type child pkg name TypeKindEllipsis results params mk mv dir) =
     (case String_ptr child of Inl e \<Rightarrow> Inl e | Inr s \<Rightarrow> Inr (''...'' @ s))"
  by (simp add: TypeKind_defs)

lemma String_array: "String (Type child pkg name TypeKindArray results params mk mv dir) =
     (case String_ptr child of Inl e \<Rightarrow> Inl e | Inr s \<Rightarrow> Inr (''[]'' @ s))"
  by (simp add: TypeKind_defs)

lemma String_map: "String (Type child pkg name TypeKindMap results params mk mv dir) =
     (case String_ptr mk of Inl e \<Rightarrow> Inl e | Inr k \<Rightarrow>
      (case String_ptr mv of Inl e \<Rightarrow> Inl e | Inr v \<Rightarrow> Inr (''map['' @ k @ '']'' @ v)))"
  by (simp add: TypeKind_defs)

lemma String_selector: "String (Type child pkg name TypeKindSelector results params mk mv dir) =
     Inr (pkg @ ''.'' @ name)"
  by (simp add: TypeKind_defs)

lemma String_interface: "String (Type child pkg name TypeKindInterface results params mk mv dir) =
     Inr ''interface{}''"
  by (simp add: TypeKind_defs)

lemma String_func:
  "String (Type child pkg name TypeKindFunc results params mk mv dir) =
     (case collect (map Param_String params) of Inl e \<Rightarrow> Inl e | Inr ps \<Rightarrow>
      (case collect (map Param_String results) of Inl e \<Rightarrow> Inl e | Inr rs \<Rightarrow>
         Inr (''func('' @ Join ps '', '' @ '') '' @
              (if 1 < length rs then ''('' @ Join rs '', '' @ '')''
               else Join rs '', ''))))"
  by (simp add: TypeKind_defs)

lemma String_chan: "String (Type child pkg name TypeKindChan results params mk mv dir) =
     (case String_ptr child of Inl e \<Rightarrow> Inl e | Inr s \<Rightarrow>
        Inr ((if dir = RECV then ''<-chan ''
              else if dir = SEND then ''chan<- ''
              else ''chan '') @ s))"
  by (simp add: TypeKind_defs)

lemma String_unrecognized:
  "kind \<notin> set recognizedKinds \<Longrightarrow>
   String (Type child pkg name kind results params mk mv dir) = Inr ''''"
  by (simp add: recognizedKinds_def)

lemmas String_kind_simps =
  String_star String_ident String_ellipsis String_array String_map String_selector
  String_interface String_func String_chan

lemma wellFormed_child:
  "wellFormed (Type child pkg name kind results params mk mv dir) \<Longrightarrow>
   kind \<in> {TypeKindStar, TypeKindEllipsis, TypeKindArray, TypeKindChan} \<Longrightarrow>
   wellFormed_ptr child"
  by simp

lemma wellFormed_map:
  "wellFormed (Type child pkg name TypeKindMap results params mk mv dir) \<Longrightarrow>
   wellFormed_ptr mk \<and> wellFormed_ptr mv"
  by simp

lemma wellFormed_func:
  "wellFormed (Type child pkg name TypeKindFunc results params mk mv dir) \<Longrightarrow>
   list_all wellFormed_param params \<and> list_all wellFormed_param results"
  by simp

lemma kind_cases:
  obtains "kind = TypeKindStar" | "kind = TypeKindIdent" | "kind = TypeKindEllipsis"
  | "kind = TypeKindArray" | "kind = TypeKindMap" | "kind = TypeKindSelector"
  | "kind = TypeKindInterface" | "kind = TypeKindFunc" | "kind = TypeKindChan"
  | "kind \<notin> set recognizedKinds"
  unfolding recognizedKinds_def by auto

declare String.simps [simp del] wellFormed.simps [simp del]

lemma String_total_aux:
  "wellFormed t \<longrightarrow> (\<exists>s. String t = Inr s)"
  "wellFormed_ptr p \<longrightarrow> (\<exists>s. String_ptr p = Inr s)"
  "wellFormed_param q \<longrightarrow> (\<exists>s. Param_String q = Inr s)"
proof (induction t and p and q rule: String_String_ptr_Param_String.induct)
  case (1 child pkg name kind results params mk mv dir)
  show ?case
  proof
    assume wf: "wellFormed (Type child pkg name kind results params mk mv dir)"
    show "\<exists>s. String (Type child pkg name kind results params mk mv dir) = Inr s"
    proof (cases kind rule: kind_cases)
      case 1
      from wf have "wellFormed_ptr child" unfolding 1 by (rule wellFormed_child) simp
      with "1.IH"(1) [OF 1] show ?thesis unfolding 1 String_star by auto
    next
      case 2
      show ?thesis unfolding 2 String_ident by simp
    next
      case 3
      from wf have "wellFormed_ptr child" unfolding 3 by (rule wellFormed_child) simp
      moreover have "wellFormed_ptr child \<longrightarrow> (\<exists>s. String_ptr child = Inr s)"
        using "1.IH"(2) 3 by (simp add: TypeKind_defs)
      ultimately show ?thesis unfolding 3 String_ellipsis by auto
    next
      case 4
      from wf have "wellFormed_ptr child" unfolding 4 by (rule wellFormed_child) simp
      moreover have "wellFormed_ptr child \<longrightarrow> (\<exists>s. String_ptr child = Inr s)"
        using "1.IH"(3) 4 by (simp add: TypeKind_defs)
      ultimately show ?thesis unfolding 4 String_array by auto
    next
      case 5
      from wf have w: "wellFormed_ptr mk" "wellFormed_ptr mv"
        unfolding 5 by (auto dest: wellFormed_map)
      have "wellFormed_ptr mk \<longrightarrow> (\<exists>s. String_ptr mk = Inr s)"
        using "1.IH"(4) 5 by (simp add: TypeKind_defs)
      with w obtain k where k: "String_ptr mk = Inr k" by auto
      have "wellFormed_ptr mv \<longrightarrow> (\<exists>s. String_ptr mv = Inr s)"
        using "1.IH"(5) [OF _ _ _ _ _ k] 5 by (simp add: TypeKind_defs)
      with w obtain v where v: "String_ptr mv = Inr v" by auto
      show ?thesis unfolding 5 String_map by (simp add: k v)
    next
      case 6
      show ?thesis unfolding 6 String_selector by simp
    next
      case 7
      show ?thesis unfolding 7 String_interface by simp
    next
      case 8
      have wps: "\<And>x. x \<in> set params \<Longrightarrow> wellFormed_param x"
        and wrs: "\<And>x. x \<in> set results \<Longrightarrow> wellFormed_param x"
        using wf unfolding 8 by (auto dest: wellFormed_func simp: list_all_iff)
      have "\<And>x. x \<in> set params \<Longrightarrow> wellFormed_param x \<longrightarrow> (\<exists>s. Param_String x = Inr s)"
        using "1.IH"(6) 8 by (simp add: TypeKind_defs)
      with wps have "\<And>x. x \<in> set params \<Longrightarrow> \<exists>s. Param_String x = Inr s"
        by blast
      then obtain ps where ps: "map Param_String params = map Inr ps"
        using all_Inr_map by blast
      then have cps: "collect (map Param_String params) = Inr ps"
        by (simp add: collect_map_Inr)
      have "\<And>x. x \<in> set results \<Longrightarrow> wellFormed_param x \<longrightarrow> (\<exists>s. Param_String x = Inr s)"
        using "1.IH"(7) [OF _ _ _ _ _ _ _ _ cps] 8 by (simp add: TypeKind_defs)
      with wrs have "\<And>x. x \<in> set results \<Longrightarrow> \<exists>s. Param_String x = Inr s"
        by blast
      then obtain rs where rs: "map Param_String results = map Inr rs"
        using all_Inr_map by blast
      then have crs: "collect (map Param_String results) = Inr rs"
        by (simp add: collect_map_Inr)
      show ?thesis
        unfolding 8 String_func by (simp add: cps crs)
    next
      case 9
      from wf have "wellFormed_ptr child" unfolding 9 by (rule wellFormed_child) simp
      moreover have "wellFormed_ptr child \<longrightarrow> (\<exists>s. String_ptr child = Inr s)"
        using "1.IH"(8) 9 by (simp add: TypeKind_defs)
      ultimately show ?thesis unfolding 9 String_chan by auto
    next
      case 10
      then show ?thesis by (simp add: String_unrecognized)
    qed
  qed
qed auto

lemma String_total: "wellFormed t \<Longrightarrow> \<exists>s. String t = Inr s"
  using String_total_aux(1) by blast

lemma Param_String_total: "wellFormed_param q \<Longrightarrow> \<exists>s. Param_String q = Inr s"
  using String_total_aux(3) by blast

lemma String_by_kind:
  "Kind t = TypeKindStar \<Longrightarrow> String t =
     (case String_ptr (Child t) of Inl e \<Rightarrow> Inl e | Inr s \<Rightarrow> Inr (''*'' @ s))"
  "Kind t = TypeKindIdent \<Longrightarrow> String t =
     (if Package t = '''' then Inr (Name t) else Inr (Package t @ ''.'' @ Name t))"
  "Kind t = TypeKindEllipsis \<Longrightarrow> String t =
     (case String_ptr (Child t) of Inl e \<Rightarrow> Inl e | Inr s \<Rightarrow> Inr (''...'' @ s))"
  "Kind t = TypeKindArray \<Longrightarrow> String t =
     (case String_ptr (Child t) of Inl e \<Rightarrow> Inl e | Inr s \<Rightarrow> Inr (''[]'' @ s))"
  "Kind t = TypeKindMap \<Longrightarrow> String t =
     (case String_ptr (mapKeyType t) of Inl e \<Rightarrow> Inl e | Inr k \<Rightarrow>
      (case String_ptr (mapValType t) of Inl e \<Rightarrow> Inl e | Inr v \<Rightarrow>
         Inr (''map['' @ k @ '']'' @ v)))"
  "Kind t = TypeKindSelector \<Longrightarrow> String t = Inr (Package t @ ''.'' @ Name t)"
  "Kind t = TypeKindInterface \<Longrightarrow> String t = Inr ''interface{}''"
  "Kind t = TypeKindFunc \<Longrightarrow> String t =
     (case collect (map Param_String (Params t)) of Inl e \<Rightarrow> Inl e | Inr ps \<Rightarrow>
      (case collect (map Param_String (Results t)) of Inl e \<Rightarrow> Inl e | Inr rs \<Rightarrow>
         Inr (''func('' @ Join ps '', '' @ '') '' @
              (if 1 < length rs then ''('' @ Join rs '', '' @ '')''
               else Join rs '', ''))))"
  "Kind t = TypeKindChan \<Longrightarrow> String t =
     (case String_ptr (Child t) of Inl e \<Rightarrow> Inl e | Inr s \<Rightarrow>
        Inr ((if chanDir t = RECV then ''<-chan ''
              else if chanDir t = SEND then ''chan<- ''
              else ''chan '') @ s))"
  "Kind t \<notin> set recognizedKinds \<Longrightarrow> String t = Inr ''''"
proof -
  obtain child pkg name kind results params mk mv dir
    where t: "t = Type child pkg name kind results params mk mv dir"
    by (cases t)
  show "Kind t = TypeKindStar \<Longrightarrow> String t =
     (case String_ptr (Child t) of Inl e \<Rightarrow> Inl e | Inr s \<Rightarrow> Inr (''*'' @ s))"
    unfolding t by (simp only: Type.sel String_star)
  show "Kind t = TypeKindIdent \<Longrightarrow> String t =
     (if Package t = '''' then Inr (Name t) else Inr (Package t @ ''.'' @ Name t))"
    unfolding t by (simp only: Type.sel String_ident)
  show "Kind t = TypeKindEllipsis \<Longrightarrow> String t =
     (case String_ptr (Child t) of Inl e \<Rightarrow> Inl e | Inr s \<Rightarrow> Inr (''...'' @ s))"
    unfolding t by (simp only: Type.sel String_ellipsis)
  show "Kind t = TypeKindArray \<Longrightarrow> String t =
     (case String_ptr (Child t) of Inl e \<Rightarrow> Inl e | Inr s \<Rightarrow> Inr (''[]'' @ s))"
    unfolding t by (simp only: Type.sel String_array)
  show "Kind t = TypeKindMap \<Longrightarrow> String t =
     (case String_ptr (mapKeyType t) of Inl e \<Rightarrow> Inl e | Inr k \<Rightarrow>
      (case String_ptr (mapValType t) of Inl e \<Rightarrow> Inl e | Inr v \<Rightarrow>
         Inr (''map['' @ k @ '']'' @ v)))"
    unfolding t by (simp only: Type.sel String_map)
  show "Kind t = TypeKindSelector \<Longrightarrow> String t = Inr (Package t @ ''.'' @ Name t)"
    unfolding t by (simp only: Type.sel String_selector)
  show "Kind t = TypeKindInterface \<Longrightarrow> String t = Inr ''interface{}''"
    unfolding t by (simp only: Type.sel String_interface)
  show "Kind t = TypeKindFunc \<Longrightarrow> String t =
     (case collect (map Param_String (Params t)) of Inl e \<Rightarrow> Inl e | Inr ps \<Rightarrow>
      (case collect (map Param_String (Results t)) of Inl e \<Rightarrow> Inl e | Inr rs \<Rightarrow>
         Inr (''func('' @ Join ps '', '' @ '') '' @
              (if 1 < length rs then ''('' @ Join rs '', '' @ '')''
               else Join rs '', ''))))"
    unfolding t by (simp only: Type.sel String_func)
  show "Kind t = TypeKindChan \<Longrightarrow> String t =
     (case String_ptr (Child t) of Inl e \<Rightarrow> Inl e | Inr s \<Rightarrow>
        Inr ((if chanDir t = RECV then ''<-chan ''
              else if chanDir t = SEND then ''chan<- ''
              else ''chan '') @ s))"
    unfolding t by (simp only: Type.sel String_chan)
  show "Kind t \<notin> set recognizedKinds \<Longrightarrow> String t = Inr ''''"
    unfolding t Type.sel by (rule String_unrecognized)
qed

text \<open>The renderer raises no panic of its own: it can only stop on a nil pointer.\<close>

lemma case_sum_Inl:
  "(case x of Inl e \<Rightarrow> Inl e | Inr s \<Rightarrow> Inr (g s)) = Inl e' \<Longrightarrow> x = Inl e'"
  by (cases x) auto

lemma collect_Inl: "collect (map f xs) = Inl e \<Longrightarrow> \<exists>x \<in> set xs. f x = Inl e"
proof (induction xs)
  case Nil
  then show ?case by simp
next
  case (Cons x xs)
  then show ?case
    by (cases "f x"; cases "collect (map f xs)") auto
qed

lemma String_fault_aux:
  "\<forall>e. String t = Inl e \<longrightarrow> e = NilDereference"
  "\<forall>e. String_ptr p = Inl e \<longrightarrow> e = NilDereference"
  "\<forall>e. Param_String q = Inl e \<longrightarrow> e = NilDereference"
proof (induction t and p and q rule: String_String_ptr_Param_String.induct)
  case (1 child pkg name kind results params mk mv dir)
  let ?t = "Type child pkg name kind results params mk mv dir"
  show ?case
  proof (intro allI impI)
    fix e assume S: "String ?t = Inl e"
    show "e = NilDereference"
    proof (cases kind rule: kind_cases)
      case 1
      from S have "String_ptr child = Inl e"
        unfolding 1 String_star by (rule case_sum_Inl)
      with "1.IH"(1) [OF 1] show ?thesis by blast
    next
      case 2
      with S show ?thesis by (simp add: String_ident split: if_splits)
    next
      case 3
      have ih: "\<forall>e. String_ptr child = Inl e \<longrightarrow> e = NilDereference"
        using "1.IH"(2) 3 by (simp add: TypeKind_defs)
      from S have "String_ptr child = Inl e"
        unfolding 3 String_ellipsis by (rule case_sum_Inl)
      with ih show ?thesis by blast
    next
      case 4
      have ih: "\<forall>e. String_ptr child = Inl e \<longrightarrow> e = NilDereference"
        using "1.IH"(3) 4 by (simp add: TypeKind_defs)
      from S have "String_ptr child = Inl e"
        unfolding 4 String_array by (rule case_sum_Inl)
      with ih show ?thesis by blast
    next
      case 5
      have ihk: "\<forall>e. String_ptr mk = Inl e \<longrightarrow> e = NilDereference"
        using "1.IH"(4) 5 by (simp add: TypeKind_defs)
      show ?thesis
      proof (cases "String_ptr mk")
        case (Inl e')
        with S ihk show ?thesis unfolding 5 String_map by simp
      next
        case (Inr k)
        have ihv: "\<forall>e. String_ptr mv = Inl e \<longrightarrow> e = NilDereference"
          using "1.IH"(5) [OF _ _ _ _ _ Inr] 5 by (simp add: TypeKind_defs)
        from S Inr have "String_ptr mv = Inl e"
          unfolding 5 String_map by (simp split: sum.splits)
        with ihv show ?thesis by blast
      qed
    next
      case 6
      with S show ?thesis by (simp add: String_selector)
    next
      case 7
      with S show ?thesis by (simp add: String_interface)
    next
      case 8
      have ihp: "\<And>x. x \<in> set params \<Longrightarrow> \<forall>e. Param_String x = Inl e \<longrightarrow> e = NilDereference"
        using "1.IH"(6) 8 by (simp add: TypeKind_defs)
      show ?thesis
      proof (cases "collect (map Param_String params)")
        case (Inl e')
        with S have "e' = e" unfolding 8 String_func by simp
        with Inl collect_Inl ihp show ?thesis by blast
      next
        case (Inr ps)
        have ihr: "\<And>x. x \<in> set results \<Longrightarrow> \<forall>e. Param_String x = Inl e \<longrightarrow> e = NilDereference"
          using "1.IH"(7) [OF _ _ _ _ _ _ _ _ Inr] 8 by (simp add: TypeKind_defs)
        from S Inr have "collect (map Param_String results) = Inl e"
          unfolding 8 String_func by (simp split: sum.splits)
        with collect_Inl ihr show ?thesis by blast
      qed
    next
      case 9
      have ih: "\<forall>e. String_ptr child = Inl e \<longrightarrow> e = NilDereference"
        using "1.IH"(8) 9 by (simp add: TypeKind_defs)
      from S have "String_ptr child = Inl e"
        unfolding 9 String_chan by (rule case_sum_Inl)
      with ih show ?thesis by blast
    next
      case 10
      with S show ?thesis by (simp add: String_unrecognized)
    qed
  qed
qed auto

lemma String_no_panic: "String t \<noteq> Inl (Panic m)"
  using String_fault_aux(1) by blast

text \<open>The test \<open>len(results) > 1\<close> of the renderer, as three cases.\<close>

lemma result_segment:
  "(if 1 < length rs then ''('' @ Join rs sep @ '')'' else Join rs sep) =
   (case rs of [] \<Rightarrow> '''' | [r] \<Rightarrow> r | _ \<Rightarrow> ''('' @ Join rs sep @ '')'')"
  by (auto split: list.splits)


section \<open>Facts about parsing\<close>

lemma ParseType_wellFormed_aux:
  "\<forall>t. ParseType n S d = Inr t \<longrightarrow> wellFormed t"
  "\<forall>ps. ParseMany fs S d = Inr ps \<longrightarrow> list_all wellFormed_param ps"
proof (induction n S d and fs S d rule: ParseType_ParseMany.induct)
qed (auto simp: wellFormed.simps TypeKind_defs split: sum.splits)

lemma wellFormed_ptr_Some: "wellFormed_ptr p \<Longrightarrow> p \<noteq> None"
  by (cases p) simp_all

lemma wellFormed_fields:
  assumes "wellFormed t"
  shows "Kind t = TypeKindMap \<longrightarrow> mapKeyType t \<noteq> None \<and> mapValType t \<noteq> None"
    and "Kind t \<in> {TypeKindStar, TypeKindArray, TypeKindEllipsis, TypeKindChan} \<longrightarrow>
         Child t \<noteq> None"
proof -
  obtain child pkg name kind results params mk mv dir
    where t: "t = Type child pkg name kind results params mk mv dir"
    by (cases t)
  show "Kind t = TypeKindMap \<longrightarrow> mapKeyType t \<noteq> None \<and> mapValType t \<noteq> None"
  proof
    assume "Kind t = TypeKindMap"
    then have "kind = TypeKindMap" by (simp add: t)
    with assms have "wellFormed_ptr mk \<and> wellFormed_ptr mv"
      unfolding t by (auto dest: wellFormed_map)
    then show "mapKeyType t \<noteq> None \<and> mapValType t \<noteq> None"
      by (simp add: t wellFormed_ptr_Some)
  qed
  show "Kind t \<in> {TypeKindStar, TypeKindArray, TypeKindEllipsis, TypeKindChan} \<longrightarrow>
        Child t \<noteq> None"
  proof
    assume "Kind t \<in> {TypeKindStar, TypeKindArray, TypeKindEllipsis, TypeKindChan}"
    then have "kind \<in> {TypeKindStar, TypeKindEllipsis, TypeKindArray, TypeKindChan}"
      by (auto simp: t)
    with assms have "wellFormed_ptr child"
      unfolding t by (rule wellFormed_child)
    then show "Child t \<noteq> None"
      by (simp add: t wellFormed_ptr_Some)
  qed
qed

section \<open>Facts about the examples\<close>

lemmas example_defs =
  exampleNode_def exampleType_def mapT_def stringT_def fooT_def intT_def errorT_def

lemma example_parse: "ParseType exampleNode [''Foo'' \<mapsto> ()] ''out'' = Inr exampleType"
  by (simp add: example_defs extractList_def formatPackage_def)

lemma example_String:
  "String exampleType =
     Inr ''func(map[string][]*out.Foo, map[string][]*out.Foo) (<-chan int, error)''"
  by (simp add: example_defs String_kind_simps RECV_def SEND_def)

lemma example_wellFormed: "wellFormed exampleType" "wellFormed intT" "wellFormed errorT"
  by (simp_all add: example_defs wellFormed.simps TypeKind_defs)

lemma example_ident_String: "String intT = Inr ''int''" "String errorT = Inr ''error''"
  by (simp_all add: intT_def errorT_def String_ident)


section \<open>Facts about the walk of a file\<close>


section \<open>The claims\<close>

subsection \<open>C1: qualification of a bare identifier\<close>

text \<open>
  C1, as stated, fails for an empty destination package name. With \<open>Foo\<close> in the set of
  local types and the destination \<open>""\<close>, the parser stores the empty \<open>Package\<close>, and the
  renderer, which tests \<open>Package == ""\<close>, prints \<open>Foo\<close> and not \<open>.Foo\<close>.
\<close>

theorem ParseType_ident_empty_destination:
  "ParseType (Ident ''Foo'') [''Foo'' \<mapsto> ()] '''' =
     Inr (Type None '''' ''Foo'' TypeKindIdent [] [] None None 0) \<and>
   String (Type None '''' ''Foo'' TypeKindIdent [] [] None None 0) = Inr ''Foo'' \<and>
   ''Foo'' \<noteq> '''' @ ''.'' @ ''Foo''"
  by (simp add: formatPackage_def String_ident)

text \<open>
  C1, amended. For every bare identifier \<open>n\<close>, set of local types \<open>S\<close> and destination
  package name \<open>d\<close>, \<open>ParseType\<close> returns a type of kind identifier with name \<open>n\<close>. If \<open>n\<close>
  is in \<open>S\<close>, its \<open>Package\<close> is \<open>d\<close> and it renders as \<open>d.n\<close> when \<open>d\<close> is not empty
  (as \<open>n\<close> alone when \<open>d\<close> is empty). If \<open>n\<close> is not in \<open>S\<close>, its \<open>Package\<close> is empty and it
  renders as \<open>n\<close>.
\<close>

theorem ParseType_ident_qualification:
  "\<exists>t. ParseType (Ident n) S d = Inr t \<and> Kind t = TypeKindIdent \<and> Name t = n \<and>
       (n \<in> dom S \<longrightarrow> Package t = d \<and>
          String t = Inr (if d = '''' then n else d @ ''.'' @ n)) \<and>
       (n \<notin> dom S \<longrightarrow> Package t = '''' \<and> String t = Inr n)"
  by (auto simp: formatPackage_def String_ident split: option.splits)

theorem ParseType_ident_qualification_witness:
  "''Foo'' \<in> dom [''Foo'' \<mapsto> ()] \<and> ''Bar'' \<notin> dom [''Foo'' \<mapsto> ()] \<and>
   (\<exists>t. ParseType (Ident ''Foo'') [''Foo'' \<mapsto> ()] ''out'' = Inr t \<and>
        Package t = ''out'' \<and> String t = Inr ''out.Foo'') \<and>
   (\<exists>t. ParseType (Ident ''Bar'') [''Foo'' \<mapsto> ()] ''out'' = Inr t \<and>
        Package t = '''' \<and> String t = Inr ''Bar'')"
  using ParseType_ident_qualification [of "''Foo''" "[''Foo'' \<mapsto> ()]" "''out''"]
        ParseType_ident_qualification [of "''Bar''" "[''Foo'' \<mapsto> ()]" "''out''"]
  by (simp add: formatPackage_def String_ident)

subsection \<open>C2: the result segment of a function type\<close>

text \<open>
  C2. A function type renders as \<open>func(\<close>, the comma-joined renderings of its
  parameter types, \<open>) \<close>, and then the result segment: nothing when there is no
  result, the single rendered result type without parentheses when there is exactly
  one, and the comma-joined rendered result types in parentheses when there are two or
  more. This holds for every function value whose parameters and results render at
  all, and those of a value that satisfies the invariants of the model do.
\<close>

theorem String_func_results:
  assumes "Kind t = TypeKindFunc"
  shows "(\<forall>ps rs. map Param_String (Params t) = map Inr ps \<longrightarrow>
                  map Param_String (Results t) = map Inr rs \<longrightarrow>
            String t = Inr (''func('' @ Join ps '', '' @ '') '' @
                            (case rs of
                               [] \<Rightarrow> ''''
                             | [r] \<Rightarrow> r
                             | _ \<Rightarrow> ''('' @ Join rs '', '' @ '')''))) \<and>
         (wellFormed t \<longrightarrow>
            (\<exists>ps rs. map Param_String (Params t) = map Inr ps \<and>
                     map Param_String (Results t) = map Inr rs))"
proof (intro conjI allI impI)
  fix ps rs
  assume "map Param_String (Params t) = map Inr ps"
    and "map Param_String (Results t) = map Inr rs"
  then have "String t = Inr (''func('' @ Join ps '', '' @ '') '' @
          (if 1 < length rs then ''('' @ Join rs '', '' @ '')'' else Join rs '', ''))"
    using assms by (simp add: String_by_kind(8) collect_map_Inr)
  then show "String t = Inr (''func('' @ Join ps '', '' @ '') '' @
          (case rs of [] \<Rightarrow> '''' | [r] \<Rightarrow> r | _ \<Rightarrow> ''('' @ Join rs '', '' @ '')''))"
    by (simp only: result_segment)
next
  assume wf: "wellFormed t"
  obtain child pkg name kind results params mk mv dir
    where t: "t = Type child pkg name kind results params mk mv dir"
    by (cases t)
  from assms have kind: "kind = TypeKindFunc" by (simp add: t)
  from wf have "list_all wellFormed_param params" "list_all wellFormed_param results"
    unfolding t kind by (auto dest: wellFormed_func)
  then have "\<And>x. x \<in> set params \<Longrightarrow> \<exists>s. Param_String x = Inr s"
    and "\<And>x. x \<in> set results \<Longrightarrow> \<exists>s. Param_String x = Inr s"
    by (auto simp: list_all_iff intro: Param_String_total)
  then obtain ps rs where "map Param_String params = map Inr ps"
    and "map Param_String results = map Inr rs"
    using all_Inr_map [of params Param_String] all_Inr_map [of results Param_String]
    by blast
  then show "\<exists>ps rs. map Param_String (Params t) = map Inr ps \<and>
                     map Param_String (Results t) = map Inr rs"
    by (auto simp: t)
qed

theorem String_func_results_witness:
  "Kind (Type None '''' '''' TypeKindFunc [Param '''' intT, Param '''' errorT]
           [Param ''n'' intT] None None 0) = TypeKindFunc \<and>
   wellFormed (Type None '''' '''' TypeKindFunc [Param '''' intT, Param '''' errorT]
           [Param ''n'' intT] None None 0) \<and>
   map Param_String [Param ''n'' intT] = map Inr [''int''] \<and>
   map Param_String [Param '''' intT, Param '''' errorT] = map Inr [''int'', ''error''] \<and>
   String (Type None '''' '''' TypeKindFunc [Param '''' intT, Param '''' errorT]
           [Param ''n'' intT] None None 0) = Inr ''func(int) (int, error)''"
proof -
  let ?t = "Type None '''' '''' TypeKindFunc [Param '''' intT, Param '''' errorT]
              [Param ''n'' intT] None None 0"
  have k: "Kind ?t = TypeKindFunc" by simp
  have w: "wellFormed ?t"
    by (simp add: wellFormed.simps example_wellFormed TypeKind_defs)
  have p: "map Param_String (Params ?t) = map Inr [''int'']"
    and r: "map Param_String (Results ?t) = map Inr [''int'', ''error'']"
    by (simp_all add: example_ident_String)
  have "String ?t = Inr (''func('' @ Join [''int''] '', '' @ '') '' @
          (case [''int'', ''error''] of [] \<Rightarrow> '''' | [r] \<Rightarrow> r
           | _ \<Rightarrow> ''('' @ Join [''int'', ''error''] '', '' @ '')''))"
    by (rule String_func_results [OF k, THEN conjunct1, rule_format, OF p r])
  with k w p r show ?thesis by simp
qed


subsection \<open>C3: interface nodes\<close>

text \<open>
  C3, as stated, fails: an interface node that declares a method is not rejected. The
  type switch matches every \<open>*ast.InterfaceType\<close> and never reads its methods, so
  \<open>interface { Read(p []byte) (int, error) }\<close> is parsed to the same value as the empty
  interface and renders as \<open>interface{}\<close>.
\<close>

theorem ParseType_interface_with_methods:
  "ParseType (InterfaceType [([''Read''],
       FuncType [([''p''], ArrayType NilNode (Ident ''byte''))]
                [([], Ident ''int''), ([], Ident ''error'')])]) Map.empty ''out'' =
     Inr (Type None '''' '''' TypeKindInterface [] [] None None 0) \<and>
   String (Type None '''' '''' TypeKindInterface [] [] None None 0) = Inr ''interface{}''"
  by (simp add: String_interface)

text \<open>
  C3, amended. For every interface node, with or without declared methods, \<open>ParseType\<close>
  returns the type of kind interface with no other field set, which renders as
  \<open>interface{}\<close>; it does not abort.
\<close>

theorem ParseType_interface_any:
  "ParseType (InterfaceType methods) S d =
     Inr (Type None '''' '''' TypeKindInterface [] [] None None 0) \<and>
   String (Type None '''' '''' TypeKindInterface [] [] None None 0) = Inr ''interface{}''"
  by (simp add: String_interface)

subsection \<open>C4: qualified references\<close>

text \<open>
  C4. A qualified reference \<open>X.Y\<close> is parsed to the type of kind selector with name
  \<open>Y\<close> and package the name of \<open>X\<close>; every type of kind selector renders as
  \<open>Package.Name\<close>; and the package of a parsed selector is not empty, \<open>X\<close> being an
  identifier, whose name in a parsed Go source is never empty.
\<close>

theorem ParseType_selector:
  "ParseType (SelectorExpr (Ident x) y) S d =
     Inr (Type None x y TypeKindSelector [] [] None None 0) \<and>
   (\<forall>t. Kind t = TypeKindSelector \<longrightarrow> String t = Inr (Package t @ ''.'' @ Name t)) \<and>
   (x \<noteq> '''' \<longrightarrow> Package (Type None x y TypeKindSelector [] [] None None 0) \<noteq> '''')"
proof (intro conjI allI impI)
  fix t assume "Kind t = TypeKindSelector"
  then show "String t = Inr (Package t @ ''.'' @ Name t)"
    by (cases t) (simp add: String_selector)
qed simp_all

theorem ParseType_selector_witness:
  "ParseType (SelectorExpr (Ident ''pkg'') ''Baz'') Map.empty ''out'' =
     Inr (Type None ''pkg'' ''Baz'' TypeKindSelector [] [] None None 0) \<and>
   Kind (Type None ''pkg'' ''Baz'' TypeKindSelector [] [] None None 0) = TypeKindSelector \<and>
   String (Type None ''pkg'' ''Baz'' TypeKindSelector [] [] None None 0) = Inr ''pkg.Baz'' \<and>
   ''pkg'' \<noteq> '''' \<and>
   Package (Type None ''pkg'' ''Baz'' TypeKindSelector [] [] None None 0) \<noteq> ''''"
  using ParseType_selector [of "''pkg''" "''Baz''" Map.empty "''out''"]
  by (simp add: String_selector)

subsection \<open>C5: unsupported node shapes\<close>

text \<open>
  C5. A node whose shape is outside the supported grammar makes \<open>ParseType\<close> panic at
  once, with a message that names the node's type; no type is returned.
\<close>

theorem ParseType_unsupported:
  "\<not> supportedShape n \<Longrightarrow> ParseType n S d = Inl (Panic (''unhandled type '' @ typeName n))"
  by (cases n) simp_all

theorem ParseType_unsupported_witness:
  "\<not> supportedShape (OtherNode ''*ast.StructType'') \<and>
   ParseType (OtherNode ''*ast.StructType'') Map.empty ''out'' =
     Inl (Panic ''unhandled type *ast.StructType'')"
  using ParseType_unsupported [of "OtherNode ''*ast.StructType''" Map.empty "''out''"]
  by simp

subsection \<open>C6: unrecognized kinds\<close>

text \<open>
  C6. A value whose \<open>Kind\<close> is none of the nine recognized kinds renders as the empty
  string. Rendering has no error path: it never raises a panic of its own, and every
  value that satisfies the invariants of the model renders to a string.
\<close>

theorem String_unrecognized_kind:
  "(Kind t \<notin> set recognizedKinds \<longrightarrow> String t = Inr '''') \<and>
   (\<forall>m. String t \<noteq> Inl (Panic m)) \<and>
   (wellFormed t \<longrightarrow> (\<exists>s. String t = Inr s))"
proof (intro conjI impI allI)
  assume "Kind t \<notin> set recognizedKinds"
  then show "String t = Inr ''''"
    by (cases t) (simp add: String_unrecognized)
next
  fix m show "String t \<noteq> Inl (Panic m)" by (rule String_no_panic)
next
  assume "wellFormed t"
  then show "\<exists>s. String t = Inr s" by (rule String_total)
qed

theorem String_unrecognized_kind_witness:
  "Kind (Type None ''p'' ''n'' ''struct'' [] [] None None 0) \<notin> set recognizedKinds \<and>
   wellFormed (Type None ''p'' ''n'' ''struct'' [] [] None None 0) \<and>
   String (Type None ''p'' ''n'' ''struct'' [] [] None None 0) = Inr ''''"
  using String_unrecognized_kind [of "Type None ''p'' ''n'' ''struct'' [] [] None None 0"]
  by (simp add: recognizedKinds_def TypeKind_defs wellFormed.simps)

subsection \<open>C7: channel directions\<close>

text \<open>
  C7. The parser stores the direction of a channel node as it is, and a channel type
  renders from its stored direction alone: \<open><-chan \<close> for receive-only, \<open>chan<- \<close> for
  send-only, and \<open>chan \<close> for a bidirectional channel (and for any other direction
  value), each followed by the rendering of the child.
\<close>

theorem String_chan_direction:
  "(ParseType v S d = Inr c \<longrightarrow>
      ParseType (ChanType dir v) S d =
        Inr (Type (Some c) '''' '''' TypeKindChan [] [] None None dir)) \<and>
   (Kind t = TypeKindChan \<longrightarrow> Child t = Some c' \<longrightarrow> String c' = Inr s \<longrightarrow>
      (chanDir t = RECV \<longrightarrow> String t = Inr (''<-chan '' @ s)) \<and>
      (chanDir t = SEND \<longrightarrow> String t = Inr (''chan<- '' @ s)) \<and>
      (chanDir t = BOTH \<longrightarrow> String t = Inr (''chan '' @ s)) \<and>
      (chanDir t \<noteq> RECV \<longrightarrow> chanDir t \<noteq> SEND \<longrightarrow> String t = Inr (''chan '' @ s)))"
  by (cases t) (auto simp: String_chan RECV_def SEND_def BOTH_def)

theorem String_chan_direction_witness:
  "ParseType (Ident ''int'') Map.empty ''out'' = Inr intT \<and>
   ParseType (ChanType RECV (Ident ''int'')) Map.empty ''out'' =
     Inr (Type (Some intT) '''' '''' TypeKindChan [] [] None None RECV) \<and>
   String (Type (Some intT) '''' '''' TypeKindChan [] [] None None RECV) = Inr ''<-chan int'' \<and>
   ParseType (ChanType SEND (Ident ''int'')) Map.empty ''out'' =
     Inr (Type (Some intT) '''' '''' TypeKindChan [] [] None None SEND) \<and>
   String (Type (Some intT) '''' '''' TypeKindChan [] [] None None SEND) = Inr ''chan<- int'' \<and>
   ParseType (ChanType BOTH (Ident ''int'')) Map.empty ''out'' =
     Inr (Type (Some intT) '''' '''' TypeKindChan [] [] None None BOTH) \<and>
   String (Type (Some intT) '''' '''' TypeKindChan [] [] None None BOTH) = Inr ''chan int''"
proof -
  have p: "ParseType (Ident ''int'') Map.empty ''out'' = Inr intT"
    by (simp add: intT_def formatPackage_def)
  have s: "String intT = Inr ''int''" by (rule example_ident_String)
  have d: "RECV \<noteq> SEND" "BOTH \<noteq> RECV" "BOTH \<noteq> SEND"
    by (simp_all add: RECV_def SEND_def BOTH_def)
  from p s d
    String_chan_direction [of "Ident ''int''" Map.empty "''out''" intT RECV
      "Type (Some intT) '''' '''' TypeKindChan [] [] None None RECV" intT "''int''"]
    String_chan_direction [of "Ident ''int''" Map.empty "''out''" intT SEND
      "Type (Some intT) '''' '''' TypeKindChan [] [] None None SEND" intT "''int''"]
    String_chan_direction [of "Ident ''int''" Map.empty "''out''" intT BOTH
      "Type (Some intT) '''' '''' TypeKindChan [] [] None None BOTH" intT "''int''"]
  show ?thesis by simp
qed

subsection \<open>C8: the invariants of a parsed type\<close>

text \<open>
  C8. Every type that \<open>ParseType\<close> returns satisfies the invariants of the model through
  its whole tree; in particular a map kind has a key and a value type that are not nil,
  and a pointer, array, variadic or channel kind has a child that is not nil.
\<close>

theorem ParseType_wellFormed:
  assumes "ParseType n S d = Inr t"
  shows "wellFormed t \<and>
         (Kind t = TypeKindMap \<longrightarrow> mapKeyType t \<noteq> None \<and> mapValType t \<noteq> None) \<and>
         (Kind t \<in> {TypeKindStar, TypeKindArray, TypeKindEllipsis, TypeKindChan} \<longrightarrow>
            Child t \<noteq> None)"
proof -
  from assms have "wellFormed t"
    using ParseType_wellFormed_aux(1) by blast
  then show ?thesis
    using wellFormed_fields by blast
qed

theorem ParseType_wellFormed_witness:
  "ParseType exampleNode [''Foo'' \<mapsto> ()] ''out'' = Inr exampleType \<and>
   wellFormed exampleType \<and>
   ParseType (MapType (Ident ''string'') (ArrayType NilNode (StarExpr (Ident ''Foo''))))
     [''Foo'' \<mapsto> ()] ''out'' = Inr mapT \<and>
   Kind mapT = TypeKindMap \<and> mapKeyType mapT \<noteq> None \<and> mapValType mapT \<noteq> None \<and>
   ParseType (StarExpr (Ident ''Foo'')) [''Foo'' \<mapsto> ()] ''out'' =
     Inr (Type (Some fooT) '''' '''' TypeKindStar [] [] None None 0) \<and>
   Kind (Type (Some fooT) '''' '''' TypeKindStar [] [] None None 0)
     \<in> {TypeKindStar, TypeKindArray, TypeKindEllipsis, TypeKindChan} \<and>
   Child (Type (Some fooT) '''' '''' TypeKindStar [] [] None None 0) \<noteq> None"
proof -
  have m: "ParseType (MapType (Ident ''string'') (ArrayType NilNode (StarExpr (Ident ''Foo''))))
     [''Foo'' \<mapsto> ()] ''out'' = Inr mapT"
    by (simp add: example_defs formatPackage_def)
  have p: "ParseType (StarExpr (Ident ''Foo'')) [''Foo'' \<mapsto> ()] ''out'' =
     Inr (Type (Some fooT) '''' '''' TypeKindStar [] [] None None 0)"
    by (simp add: example_defs formatPackage_def)
  have k: "Kind mapT = TypeKindMap" by (simp add: mapT_def)
  from ParseType_wellFormed [OF example_parse] ParseType_wellFormed [OF m]
    ParseType_wellFormed [OF p] example_parse m p k
  show ?thesis by simp
qed

subsection \<open>C10: only exported type declarations are local types\<close>



end
